theory Spec2Isabelle
  imports Complex_Main "HOL-Library.Word" "HOL-Library.Log_Nat"
begin

unbundle bit_operations_syntax

section \<open>Python values used by ntp.py\<close>

text \<open>
  Bytes objects are lists of 8-bit words, Python integers are unbounded (\<open>int\<close>), and an
  exception that leaves a function is the \<open>Inl\<close> branch of a sum.
\<close>

type_synonym byte = "8 word"

datatype exn = StructError | ZeroDivisionError | OverflowError | ValueError | UnicodeError | OSError

subsection \<open>Floats: IEEE 754 binary64, round to nearest, ties to even\<close>

text \<open>
  A Python float is a binary64 value. A finite one is carried by the rational it denotes
  (\<open>Fin q\<close>); \<open>0.0\<close> and \<open>-0.0\<close>, which compare equal in Python, are both \<open>Fin 0\<close>.
  Every arithmetic operation computes the exact rational result and rounds it with
  \<open>round_binary64\<close>: 53 significant bits, least exponent \<open>-1074\<close> (subnormals), overflow to
  infinity from \<open>2 ^ 1024\<close> on.
\<close>

datatype pyfloat = Fin rat | PInf | NInf | NaN

definition pow2 :: "int \<Rightarrow> rat" where
  "pow2 e = (if 0 \<le> e then 2 ^ nat e else 1 / 2 ^ nat (- e))"

definition floor_log2 :: "rat \<Rightarrow> int" where
  "floor_log2 a = (let (n, d) = quotient_of a; k = bitlen n - bitlen d
                   in if pow2 k \<le> a then k else k - 1)"

definition round_half_even :: "rat \<Rightarrow> int" where
  "round_half_even q = (let f = \<lfloor>q\<rfloor>; r = q - of_int f
     in if r < 1 / 2 then f else if 1 / 2 < r then f + 1 else if even f then f else f + 1)"

definition round_binary64 :: "rat \<Rightarrow> pyfloat" where
  "round_binary64 q = (if q = 0 then Fin 0 else
     let a = \<bar>q\<bar>;
         u = pow2 (max (floor_log2 a - 52) (- 1074));
         r = of_int (round_half_even (a / u)) * u
     in if pow2 1024 \<le> r then (if 0 < q then PInf else NInf)
        else Fin (if 0 < q then r else - r))"

text \<open>\<open>a + b\<close>, \<open>a - b\<close>, \<open>abs(a)\<close>, \<open>a <= b\<close> and \<open>a > b\<close> on floats.\<close>

fun fadd :: "pyfloat \<Rightarrow> pyfloat \<Rightarrow> pyfloat" where
  "fadd (Fin a) (Fin b) = round_binary64 (a + b)"
| "fadd NaN _ = NaN"
| "fadd _ NaN = NaN"
| "fadd PInf NInf = NaN"
| "fadd NInf PInf = NaN"
| "fadd PInf _ = PInf"
| "fadd _ PInf = PInf"
| "fadd NInf _ = NInf"
| "fadd _ NInf = NInf"

fun fsub :: "pyfloat \<Rightarrow> pyfloat \<Rightarrow> pyfloat" where
  "fsub (Fin a) (Fin b) = round_binary64 (a - b)"
| "fsub NaN _ = NaN"
| "fsub _ NaN = NaN"
| "fsub PInf PInf = NaN"
| "fsub NInf NInf = NaN"
| "fsub PInf _ = PInf"
| "fsub _ NInf = PInf"
| "fsub NInf _ = NInf"
| "fsub _ PInf = NInf"

fun fabs :: "pyfloat \<Rightarrow> pyfloat" where
  "fabs (Fin a) = Fin \<bar>a\<bar>"
| "fabs PInf = PInf"
| "fabs NInf = PInf"
| "fabs NaN = NaN"

fun fle :: "pyfloat \<Rightarrow> pyfloat \<Rightarrow> bool" where
  "fle (Fin a) (Fin b) = (a \<le> b)"
| "fle NaN _ = False"
| "fle _ NaN = False"
| "fle NInf _ = True"
| "fle _ PInf = True"
| "fle _ _ = False"

fun fgt :: "pyfloat \<Rightarrow> pyfloat \<Rightarrow> bool" where
  "fgt (Fin a) (Fin b) = (b < a)"
| "fgt NaN _ = False"
| "fgt _ NaN = False"
| "fgt PInf PInf = False"
| "fgt NInf NInf = False"
| "fgt PInf _ = True"
| "fgt _ NInf = True"
| "fgt _ _ = False"

text \<open>
  An integer meeting a float is converted first, and \<open>int / int\<close> is true division; both
  are correctly rounded and raise \<open>OverflowError\<close> where a float operation would give
  an infinity.
\<close>

definition float_of_int :: "int \<Rightarrow> exn + pyfloat" where
  "float_of_int i = (case round_binary64 (of_int i) of Fin q \<Rightarrow> Inr (Fin q) | _ \<Rightarrow> Inl OverflowError)"

definition int_truediv :: "int \<Rightarrow> int \<Rightarrow> exn + pyfloat" where
  "int_truediv a b =
     (if b = 0 then Inl ZeroDivisionError
      else case round_binary64 (of_int a / of_int b) of
             Fin q \<Rightarrow> Inr (Fin q)
           | _ \<Rightarrow> Inl OverflowError)"

subsection \<open>The struct module, network byte order\<close>

text \<open>Format characters \<open>B\<close> (one unsigned byte) and \<open>I\<close> (four bytes, unsigned), under \<open>!\<close>.\<close>

datatype fmt = Fmt_B | Fmt_I

fun fmt_size :: "fmt \<Rightarrow> nat" where
  "fmt_size Fmt_B = 1"
| "fmt_size Fmt_I = 4"

fun pack_field :: "fmt \<Rightarrow> int \<Rightarrow> exn + byte list" where
  "pack_field Fmt_B v =
     (if 0 \<le> v \<and> v \<le> 255 then Inr [word_of_int v] else Inl StructError)"
| "pack_field Fmt_I v =
     (if 0 \<le> v \<and> v < 2 ^ 32
      then Inr [word_of_int (drop_bit 24 v), word_of_int (drop_bit 16 v),
                word_of_int (drop_bit 8 v), word_of_int v]
      else Inl StructError)"

fun struct_pack :: "fmt list \<Rightarrow> int list \<Rightarrow> exn + byte list" where
  "struct_pack [] [] = Inr []"
| "struct_pack (f # fs) (v # vs) =
     (case pack_field f v of
        Inl e \<Rightarrow> Inl e
      | Inr bs \<Rightarrow> (case struct_pack fs vs of Inl e \<Rightarrow> Inl e | Inr rest \<Rightarrow> Inr (bs @ rest)))"
| "struct_pack _ _ = Inl StructError"

definition be_int :: "byte list \<Rightarrow> int" where
  "be_int bs = foldl (\<lambda>acc b. acc * 256 + uint b) 0 bs"

fun struct_unpack :: "fmt list \<Rightarrow> byte list \<Rightarrow> exn + int list" where
  "struct_unpack [] bs = (if bs = [] then Inr [] else Inl StructError)"
| "struct_unpack (f # fs) bs =
     (if length bs < fmt_size f then Inl StructError
      else case struct_unpack fs (drop (fmt_size f) bs) of
             Inl e \<Rightarrow> Inl e
           | Inr vs \<Rightarrow> Inr (be_int (take (fmt_size f) bs) # vs))"

text \<open>\<open>data[i:j]\<close> for \<open>0 \<le> i \<le> j\<close>.\<close>

definition slice_list :: "'a list \<Rightarrow> nat \<Rightarrow> nat \<Rightarrow> 'a list" where
  "slice_list xs i j = take (j - i) (drop i xs)"

section \<open>Constants and configuration\<close>

definition NTP_DELTA :: int where
  "NTP_DELTA = 2208988800"

definition DEFAULT_SERVERS :: "string list" where
  "DEFAULT_SERVERS = [''pool.ntp.org'', ''time.google.com'', ''time.windows.com'']"

definition DEFAULT_TIMEOUT :: pyfloat where
  "DEFAULT_TIMEOUT = Fin 5"

definition SYNC_THRESHOLD :: pyfloat where
  "SYNC_THRESHOLD = Fin 1"

record NTPConfig =
  servers :: "string list"
  timeout :: pyfloat
  version :: int
  sync_threshold :: pyfloat

definition NTPConfig_default :: NTPConfig where
  "NTPConfig_default =
     \<lparr>servers = DEFAULT_SERVERS, timeout = DEFAULT_TIMEOUT, version = 4,
      sync_threshold = SYNC_THRESHOLD\<rparr>"

section \<open>The surroundings: network, clock writer, traces\<close>

text \<open>
  The socket calls are answered by the surroundings. \<open>open_socket n t\<close> is the outcome of
  creating the socket and setting its timeout \<open>t\<close> for the \<open>n\<close>-th call of
  \<open>get_ntp_time\<close>; \<open>exchange n server port packet\<close> is the outcome of \<open>sendto\<close> followed
  by \<open>recvfrom(512)\<close>. An outcome is a value, one of the errors that \<open>get_ntp_time\<close>
  catches (\<open>socket.timeout\<close>, \<open>socket.gaierror\<close>, any other \<open>OSError\<close>), or an exception
  that it does not catch.
\<close>

datatype sock_error = SocketTimeout | SocketGaiError | SocketOSError

datatype 'a outcome = Ok 'a | NetError sock_error | Raised exn

record network =
  open_socket :: "nat \<Rightarrow> pyfloat \<Rightarrow> unit outcome"
  exchange :: "nat \<Rightarrow> string \<Rightarrow> nat \<Rightarrow> byte list \<Rightarrow> byte list outcome"

text \<open>
  A \<open>TimeSetter\<close> is an object with one method \<open>set_system_time(unix_ts)\<close>, which acts on
  the host (of some type \<open>'os\<close>) and returns a boolean or raises.
\<close>

type_synonym 'os TimeSetter = "pyfloat \<Rightarrow> 'os \<Rightarrow> (exn + bool) \<times> 'os"

text \<open>
  The state threaded through the client: the host, the servers \<open>get_ntp_time\<close> has been
  called on, in order, and the timestamps \<open>set_system_time\<close> has been called with, in
  order. Calls of \<open>logging\<close> only report and are left out.
\<close>

record 'os world =
  os :: 'os
  tried :: "string list"
  setter_calls :: "pyfloat list"

section \<open>LinuxTimeSetter\<close>

text \<open>
  The two strategies act on the host through libc and through \<open>sudo date\<close>.
  \<open>_set_time_via_libc\<close> wraps its whole body in \<open>except Exception\<close> and so always returns
  a boolean; \<open>_set_time_via_date_cmd\<close> catches only \<open>CalledProcessError\<close> and
  \<open>FileNotFoundError\<close> and may raise. The host state records which strategies ran.
\<close>

datatype strategy = Libc | DateCmd

record 'h unix_host =
  host :: 'h
  attempted :: "strategy list"

record 'h unix_api =
  set_time_via_libc :: "pyfloat \<Rightarrow> 'h \<Rightarrow> bool \<times> 'h"
  set_time_via_date_cmd :: "pyfloat \<Rightarrow> 'h \<Rightarrow> (exn + bool) \<times> 'h"

definition LinuxTimeSetter_set_system_time ::
    "'h unix_api \<Rightarrow> pyfloat \<Rightarrow> 'h unix_host \<Rightarrow> (exn + bool) \<times> 'h unix_host" where
  "LinuxTimeSetter_set_system_time api unix_ts s =
     (let (ok, h1) = set_time_via_libc api unix_ts (host s);
          s1 = s\<lparr>host := h1, attempted := attempted s @ [Libc]\<rparr>
      in if ok then (Inr True, s1)
         else let (r, h2) = set_time_via_date_cmd api unix_ts h1
              in (r, s1\<lparr>host := h2, attempted := attempted s1 @ [DateCmd]\<rparr>))"

section \<open>NTPClient\<close>

definition port :: nat where
  "port = 123"

definition build_packet :: "NTPConfig \<Rightarrow> exn + byte list" where
  "build_packet cfg =
     (let li = 0;
          vn = version cfg;
          mode = 3;
          first_byte = push_bit 6 li OR push_bit 3 vn OR mode
      in struct_pack (replicate 4 Fmt_B @ replicate 11 Fmt_I)
           ([first_byte, 0, 0, 0] @ replicate 11 0))"

text \<open>The part of \<open>get_ntp_time\<close> after the datagram has arrived (lines 246 to 258).\<close>

definition decode_reply :: "byte list \<Rightarrow> exn + pyfloat option" where
  "decode_reply data =
     (if length data < 48 then Inr None
      else case struct_unpack [Fmt_I, Fmt_I] (slice_list data 40 48) of
             Inl StructError \<Rightarrow> Inr None
           | Inl e \<Rightarrow> Inl e
           | Inr [seconds, fraction] \<Rightarrow>
               (case int_truediv fraction (2 ^ 32) of
                  Inl e \<Rightarrow> Inl e
                | Inr q \<Rightarrow>
                   (case float_of_int seconds of
                      Inl e \<Rightarrow> Inl e
                    | Inr s \<Rightarrow>
                       (let ntp_timestamp = fadd s q in
                        case float_of_int NTP_DELTA of
                          Inl e \<Rightarrow> Inl e
                        | Inr d \<Rightarrow> Inr (Some (fsub ntp_timestamp d)))))
           | Inr _ \<Rightarrow> Inl ValueError)"

definition get_ntp_time ::
    "NTPConfig \<Rightarrow> network \<Rightarrow> string \<Rightarrow> 'os world \<Rightarrow> (exn + pyfloat option) \<times> 'os world" where
  "get_ntp_time cfg net server w =
     (let n = length (tried w);
          w' = w\<lparr>tried := tried w @ [server]\<rparr>
      in case open_socket net n (timeout cfg) of
           NetError _ \<Rightarrow> (Inr None, w')
         | Raised e \<Rightarrow> (Inl e, w')
         | Ok _ \<Rightarrow>
            (case build_packet cfg of
               Inl e \<Rightarrow> (Inl e, w')
             | Inr packet \<Rightarrow>
                (case exchange net n server port packet of
                   NetError _ \<Rightarrow> (Inr None, w')
                 | Raised e \<Rightarrow> (Inl e, w')
                 | Ok data \<Rightarrow> (decode_reply data, w'))))"

text \<open>\<open>[server] if server else self.cfg.servers\<close>: \<open>None\<close> and the empty string are both false.\<close>

definition candidates :: "NTPConfig \<Rightarrow> string option \<Rightarrow> string list" where
  "candidates cfg server =
     (case server of
        None \<Rightarrow> servers cfg
      | Some s \<Rightarrow> if s \<noteq> [] then [s] else servers cfg)"

fun query_loop ::
    "NTPConfig \<Rightarrow> network \<Rightarrow> string list \<Rightarrow> 'os world \<Rightarrow> (exn + pyfloat option) \<times> 'os world" where
  "query_loop cfg net [] w = (Inr None, w)"
| "query_loop cfg net (srv # rest) w =
     (case get_ntp_time cfg net srv w of
        (Inl e, w') \<Rightarrow> (Inl e, w')
      | (Inr (Some ts), w') \<Rightarrow> (Inr (Some ts), w')
      | (Inr None, w') \<Rightarrow> query_loop cfg net rest w')"

definition query ::
    "NTPConfig \<Rightarrow> network \<Rightarrow> string option \<Rightarrow> 'os world \<Rightarrow> (exn + pyfloat option) \<times> 'os world" where
  "query cfg net server w = query_loop cfg net (candidates cfg server) w"

text \<open>\<open>diff = abs(ntp_ts - local_ts)\<close> (lines 292 and 293), the clock offset.\<close>

definition clock_offset :: "pyfloat \<Rightarrow> pyfloat \<Rightarrow> pyfloat" where
  "clock_offset ntp_ts local_ts = fabs (fsub ntp_ts local_ts)"

text \<open>
  Lines 297 to 302 of \<open>sync\<close> render both timestamps in the local time zone before the
  write mode is looked at: \<open>datetime.now().astimezone().tzinfo\<close>, then
  \<open>datetime.fromtimestamp\<close> on the server's and on the local timestamp, then \<open>strftime\<close>
  on both results (arguments of \<open>logging.info\<close>, evaluated whatever the log level). The
  platform answers each call with a value or an exception (\<open>fromtimestamp\<close> raises
  \<open>OverflowError\<close>, \<open>OSError\<close> or \<open>ValueError\<close> on a timestamp that the platform's
  time functions reject), and \<open>sync\<close> catches none of them.
\<close>

record ('tz, 'dt) datetime_api =
  now_tzinfo :: "exn + 'tz"
  fromtimestamp :: "pyfloat \<Rightarrow> 'tz \<Rightarrow> exn + 'dt"
  strftime :: "'dt \<Rightarrow> exn + string"

definition local_time_strings ::
    "('tz, 'dt) datetime_api \<Rightarrow> pyfloat \<Rightarrow> pyfloat \<Rightarrow> exn + string \<times> string" where
  "local_time_strings dt ntp_ts local_ts =
     (case now_tzinfo dt of
        Inl e \<Rightarrow> Inl e
      | Inr local_tz \<Rightarrow>
         (case fromtimestamp dt ntp_ts local_tz of
            Inl e \<Rightarrow> Inl e
          | Inr ntp_local \<Rightarrow>
             (case fromtimestamp dt local_ts local_tz of
                Inl e \<Rightarrow> Inl e
              | Inr local_now \<Rightarrow>
                 (case strftime dt ntp_local of
                    Inl e \<Rightarrow> Inl e
                  | Inr ntp_str \<Rightarrow>
                     (case strftime dt local_now of
                        Inl e \<Rightarrow> Inl e
                      | Inr local_str \<Rightarrow> Inr (ntp_str, local_str))))))"

text \<open>
  \<open>sync\<close>; \<open>local_ts\<close> is what \<open>time.time()\<close> returns when it is read, after the query.
\<close>

definition sync ::
    "NTPConfig \<Rightarrow> network \<Rightarrow> ('tz, 'dt) datetime_api \<Rightarrow> pyfloat \<Rightarrow> string option \<Rightarrow> bool \<Rightarrow>
     'os TimeSetter option \<Rightarrow> 'os world \<Rightarrow> (exn + bool) \<times> 'os world" where
  "sync cfg net dt local_ts server set_system time_setter w =
     (case query cfg net server w of
        (Inl e, w1) \<Rightarrow> (Inl e, w1)
      | (Inr None, w1) \<Rightarrow> (Inr False, w1)
      | (Inr (Some ntp_ts), w1) \<Rightarrow>
          (let diff = clock_offset ntp_ts local_ts in
           case local_time_strings dt ntp_ts local_ts of
             Inl e \<Rightarrow> (Inl e, w1)
           | Inr _ \<Rightarrow>
              (if set_system then
                 (if fle diff (sync_threshold cfg) then (Inr True, w1)
                  else case time_setter of
                         None \<Rightarrow> (Inr False, w1)
                       | Some setter \<Rightarrow>
                           (let (r, os') = setter ntp_ts (os w1)
                            in (r, w1\<lparr>os := os',
                                      setter_calls := setter_calls w1 @ [ntp_ts]\<rparr>)))
               else (Inr True, w1))))"

section \<open>What the specification calls the fields of a request and of a reply\<close>

text \<open>
  Byte 0 of a request read back as three bit fields, and the 32-bit big-endian unsigned
  integer that starts at a byte offset of a reply.
\<close>

definition leap_indicator :: "byte \<Rightarrow> int" where
  "leap_indicator b = drop_bit 6 (uint b)"

definition version_number :: "byte \<Rightarrow> int" where
  "version_number b = take_bit 3 (drop_bit 3 (uint b))"

definition mode_field :: "byte \<Rightarrow> int" where
  "mode_field b = take_bit 3 (uint b)"

definition be_u32_at :: "byte list \<Rightarrow> nat \<Rightarrow> int" where
  "be_u32_at data off =
     uint (data ! off) * 2 ^ 24 + uint (data ! (off + 1)) * 2 ^ 16
       + uint (data ! (off + 2)) * 2 ^ 8 + uint (data ! (off + 3))"

text \<open>
  The outcome of the \<open>j\<close>-th candidate of a list, at the moment the loop of \<open>query\<close>
  reaches it: the candidates before it have been tried.
\<close>

definition attempt ::
    "NTPConfig \<Rightarrow> network \<Rightarrow> string list \<Rightarrow> 'os world \<Rightarrow> nat \<Rightarrow> exn + pyfloat option" where
  "attempt cfg net cs w j = fst (get_ntp_time cfg net (cs ! j) (w\<lparr>tried := tried w @ take j cs\<rparr>))"

section \<open>Example inputs\<close>

text \<open>
  A reply whose transmit timestamp is 2208988805 seconds and half a second (Unix time 5.5),
  a datagram that is one byte short, a network in which only \<open>time.google.com\<close> answers,
  one in which nobody does, one whose replies are 48 zero bytes (transmit timestamp 0, the
  year 1900), a platform that renders every timestamp and one whose \<open>fromtimestamp\<close>
  rejects timestamps before 1970, a host whose state is its clock, and clock writers for it.
\<close>

definition example_reply :: "byte list" where
  "example_reply = replicate 40 0 @ [0x83, 0xAA, 0x7E, 0x85, 0x80, 0, 0, 0]"

definition example_short_reply :: "byte list" where
  "example_short_reply = replicate 47 0"

definition example_network :: network where
  "example_network =
     \<lparr>open_socket = (\<lambda>n t. Ok ()),
      exchange = (\<lambda>n server p packet.
         if server = ''time.google.com'' then Ok example_reply else NetError SocketTimeout)\<rparr>"


definition example_short_network :: network where
  "example_short_network =
     \<lparr>open_socket = (\<lambda>n t. Ok ()),
      exchange = (\<lambda>n server p packet. Ok example_short_reply)\<rparr>"

definition example_zero_reply :: "byte list" where
  "example_zero_reply = replicate 48 0"

definition example_zero_network :: network where
  "example_zero_network =
     \<lparr>open_socket = (\<lambda>n t. Ok ()),
      exchange = (\<lambda>n server p packet. Ok example_zero_reply)\<rparr>"

definition example_datetime :: "(unit, pyfloat) datetime_api" where
  "example_datetime =
     \<lparr>now_tzinfo = Inr (),
      fromtimestamp = (\<lambda>t tz. Inr t),
      strftime = (\<lambda>d. Inr ''2026-01-01 00:00:00 UTC'')\<rparr>"

definition example_datetime_strict :: "(unit, pyfloat) datetime_api" where
  "example_datetime_strict =
     \<lparr>now_tzinfo = Inr (),
      fromtimestamp = (\<lambda>t tz. if fle (Fin 0) t then Inr t else Inl OSError),
      strftime = (\<lambda>d. Inr ''2026-01-01 00:00:00 UTC'')\<rparr>"

definition example_world :: "pyfloat world" where
  "example_world = \<lparr>os = Fin 100, tried = [], setter_calls = []\<rparr>"

definition example_setter :: "pyfloat TimeSetter" where
  "example_setter unix_ts clock = (Inr True, unix_ts)"

definition example_unix_host :: "pyfloat unix_host" where
  "example_unix_host = \<lparr>host = Fin 100, attempted = []\<rparr>"

definition example_api_root :: "pyfloat unix_api" where
  "example_api_root =
     \<lparr>set_time_via_libc = (\<lambda>unix_ts clock. (True, unix_ts)),
      set_time_via_date_cmd = (\<lambda>unix_ts clock. (Inr True, unix_ts))\<rparr>"

definition example_api_sudo :: "pyfloat unix_api" where
  "example_api_sudo =
     \<lparr>set_time_via_libc = (\<lambda>unix_ts clock. (False, clock)),
      set_time_via_date_cmd = (\<lambda>unix_ts clock. (Inr True, unix_ts))\<rparr>"

definition example_api_denied :: "pyfloat unix_api" where
  "example_api_denied =
     \<lparr>set_time_via_libc = (\<lambda>unix_ts clock. (False, clock)),
      set_time_via_date_cmd = (\<lambda>unix_ts clock. (Inr False, clock))\<rparr>"

section \<open>Rounding to binary64\<close>

lemma pow2_powi: "pow2 e = 2 powi e"
  by (simp add: pow2_def power_int_def field_simps)

lemma pow2_pos: "0 < pow2 e"
  by (simp add: pow2_powi zero_less_power_int)

lemma pow2_add: "pow2 (a + b) = pow2 a * pow2 b"
  by (simp add: pow2_powi power_int_add)

lemma pow2_nat: "pow2 (int n) = 2 ^ n"
  by (simp add: pow2_def)

lemma pow2_le_iff: "pow2 a \<le> pow2 b \<longleftrightarrow> a \<le> b"
proof
  assume "pow2 a \<le> pow2 b"
  show "a \<le> b"
  proof (rule ccontr)
    assume "\<not> a \<le> b"
    then have "pow2 b < pow2 a"
      by (simp add: pow2_powi power_int_strict_increasing)
    with \<open>pow2 a \<le> pow2 b\<close> show False by simp
  qed
next
  assume "a \<le> b"
  then show "pow2 a \<le> pow2 b"
    by (simp add: pow2_powi power_int_increasing)
qed

lemma pow2_less_iff: "pow2 a < pow2 b \<longleftrightarrow> a < b"
  using pow2_le_iff[of b a] by (auto simp: not_le[symmetric])

lemma floor_log2_lower:
  assumes "0 < a"
  shows "pow2 (floor_log2 a) \<le> a"
proof -
  obtain n d where nd: "quotient_of a = (n, d)" by (cases "quotient_of a")
  then have d: "0 < d" and a: "a = of_int n / of_int d"
    by (simp_all add: quotient_of_denom_pos quotient_of_div)
  with assms have n: "0 < n" by (simp add: zero_less_divide_iff)
  let ?k = "bitlen n - bitlen d"
  have bn: "2 ^ nat (bitlen n - 1) \<le> n" and bd: "d < 2 ^ nat (bitlen d)"
    using bitlen_bounds[OF n] bitlen_bounds[OF d] by simp_all
  have n1: "1 \<le> bitlen n" using n by (simp add: bitlen_alt_def)
  have d0: "0 \<le> bitlen d" by (rule bitlen_nonneg)
  have "pow2 (?k - 1) \<le> a"
  proof -
    have "pow2 (?k - 1) * pow2 (bitlen d) = pow2 (bitlen n - 1)"
      by (simp add: pow2_add[symmetric])
    moreover have "pow2 (bitlen n - 1) = 2 ^ nat (bitlen n - 1)"
      using n1 pow2_nat[of "nat (bitlen n - 1)"] by simp
    moreover have "pow2 (bitlen d) = 2 ^ nat (bitlen d)"
      using d0 pow2_nat[of "nat (bitlen d)"] by simp
    ultimately have e: "pow2 (?k - 1) * 2 ^ nat (bitlen d) = 2 ^ nat (bitlen n - 1)"
      by simp
    have "pow2 (?k - 1) * of_int d \<le> pow2 (?k - 1) * 2 ^ nat (bitlen d)"
    proof (rule mult_left_mono)
      have "(of_int d :: rat) \<le> of_int (2 ^ nat (bitlen d))"
        using bd by (simp only: of_int_le_iff)
      then show "(of_int d :: rat) \<le> 2 ^ nat (bitlen d)" by simp
      show "0 \<le> pow2 (?k - 1)" using pow2_pos[of "?k - 1"] by simp
    qed
    also have "\<dots> = 2 ^ nat (bitlen n - 1)" by (rule e)
    also have "\<dots> \<le> (of_int n :: rat)"
    proof -
      have "(of_int (2 ^ nat (bitlen n - 1)) :: rat) \<le> of_int n"
        using bn by (simp only: of_int_le_iff)
      then show ?thesis by simp
    qed
    finally have "pow2 (?k - 1) * of_int d \<le> of_int n" .
    then show ?thesis using d by (simp add: a pos_le_divide_eq)
  qed
  then show ?thesis
    by (simp add: floor_log2_def nd Let_def)
qed

lemma floor_log2_upper:
  assumes "0 < a"
  shows "a < pow2 (floor_log2 a + 1)"
proof -
  obtain n d where nd: "quotient_of a = (n, d)" by (cases "quotient_of a")
  then have d: "0 < d" and a: "a = of_int n / of_int d"
    by (simp_all add: quotient_of_denom_pos quotient_of_div)
  with assms have n: "0 < n" by (simp add: zero_less_divide_iff)
  let ?k = "bitlen n - bitlen d"
  have bn: "n < 2 ^ nat (bitlen n)" and bd: "2 ^ nat (bitlen d - 1) \<le> d"
    using bitlen_bounds[OF n] bitlen_bounds[OF d] by simp_all
  have d1: "1 \<le> bitlen d" using d by (simp add: bitlen_alt_def)
  have n0: "0 \<le> bitlen n" by (rule bitlen_nonneg)
  have "a < pow2 (?k + 1)"
  proof -
    have "pow2 (?k + 1) * pow2 (bitlen d - 1) = pow2 (bitlen n)"
      by (simp add: pow2_add[symmetric])
    moreover have "pow2 (bitlen n) = 2 ^ nat (bitlen n)"
      using n0 pow2_nat[of "nat (bitlen n)"] by simp
    moreover have "pow2 (bitlen d - 1) = 2 ^ nat (bitlen d - 1)"
      using d1 pow2_nat[of "nat (bitlen d - 1)"] by simp
    ultimately have e: "pow2 (?k + 1) * 2 ^ nat (bitlen d - 1) = 2 ^ nat (bitlen n)"
      by simp
    have "(of_int n :: rat) < of_int (2 ^ nat (bitlen n))"
      using bn by (simp only: of_int_less_iff)
    then have "(of_int n :: rat) < 2 ^ nat (bitlen n)" by simp
    also have "\<dots> = pow2 (?k + 1) * 2 ^ nat (bitlen d - 1)" by (rule e[symmetric])
    also have "\<dots> \<le> pow2 (?k + 1) * of_int d"
    proof (rule mult_left_mono)
      have "(of_int (2 ^ nat (bitlen d - 1)) :: rat) \<le> of_int d"
        using bd by (simp only: of_int_le_iff)
      then show "(2 ^ nat (bitlen d - 1) :: rat) \<le> of_int d" by simp
      show "0 \<le> pow2 (?k + 1)" using pow2_pos[of "?k + 1"] by simp
    qed
    finally have "of_int n < pow2 (?k + 1) * of_int d" .
    then show ?thesis using d by (simp add: a pos_divide_less_eq)
  qed
  moreover have "pow2 ?k \<le> pow2 (?k + 1)" by (simp add: pow2_le_iff)
  ultimately show ?thesis
    by (auto simp add: floor_log2_def nd Let_def)
qed

lemma round_half_even_of_int: "round_half_even (of_int n) = n"
  by (simp add: round_half_even_def)

lemma round_half_even_nonneg: "0 \<le> x \<Longrightarrow> 0 \<le> round_half_even x"
  by (auto simp add: round_half_even_def Let_def)

lemma round_binary64_exact:
  assumes q: "q = of_int m * pow2 e" and m: "\<bar>m\<bar> < 2 ^ 53" and e: "- 1074 \<le> e"
    and bound: "\<bar>q\<bar> < pow2 1024"
  shows "round_binary64 q = Fin q"
proof (cases "q = 0")
  case True
  then show ?thesis by (simp add: round_binary64_def)
next
  case False
  define a where "a = \<bar>q\<bar>"
  define ue where "ue = max (floor_log2 a - 52) (- 1074)"
  have a_pos: "0 < a" using False by (simp add: a_def)
  have a_eq: "a = of_int \<bar>m\<bar> * pow2 e"
    using pow2_pos[of e] by (simp add: a_def q abs_mult)
  have "(of_int \<bar>m\<bar> :: rat) < of_int (2 ^ 53)"
    using m by (simp only: of_int_less_iff)
  then have "(of_int \<bar>m\<bar> :: rat) < pow2 53"
    by (simp add: pow2_def)
  then have "a < pow2 53 * pow2 e"
    unfolding a_eq using pow2_pos[of e] by (simp only: mult_less_cancel_right_pos)
  then have "a < pow2 (53 + e)" by (simp add: pow2_add)
  with floor_log2_lower[OF a_pos] have "pow2 (floor_log2 a) < pow2 (53 + e)" by simp
  then have "floor_log2 a < 53 + e" by (simp only: pow2_less_iff)
  with e have ue_le: "ue \<le> e" by (simp add: ue_def)
  have split: "pow2 e = pow2 (e - ue) * pow2 ue"
    by (simp add: pow2_add[symmetric])
  have int_pow: "pow2 (e - ue) = of_int (2 ^ nat (e - ue))"
    using ue_le pow2_nat[of "nat (e - ue)"] by simp
  have quot: "a / pow2 ue = of_int (\<bar>m\<bar> * 2 ^ nat (e - ue))"
    using pow2_pos[of ue] by (simp add: a_eq split int_pow)
  have r: "of_int (round_half_even (a / pow2 ue)) * pow2 ue = a"
    unfolding quot round_half_even_of_int
    using pow2_pos[of ue] by (simp add: a_eq split int_pow)
  have nb: "\<not> pow2 1024 \<le> a" using bound by (simp add: a_def)
  have "round_binary64 q = Fin (if 0 < q then a else - a)"
    using False r nb unfolding round_binary64_def Let_def a_def[symmetric] ue_def[symmetric]
    by simp
  also have "(if 0 < q then a else - a) = q" by (simp add: a_def)
  finally show ?thesis .
qed

lemma round_binary64_of_int:
  assumes "\<bar>i\<bar> < 2 ^ 53"
  shows "round_binary64 (of_int i) = Fin (of_int i)"
proof (rule round_binary64_exact[where m = i and e = 0])
  show "of_int i = of_int i * pow2 0" by (simp add: pow2_def)
  show "\<bar>i\<bar> < 2 ^ 53" by (rule assms)
  show "- 1074 \<le> (0::int)" by simp
  have "(of_int \<bar>i\<bar> :: rat) < of_int (2 ^ 53)"
    using assms by (simp only: of_int_less_iff)
  also have "\<dots> = pow2 53" by (simp add: pow2_def)
  also have "\<dots> \<le> pow2 1024" by (simp only: pow2_le_iff)
  finally show "\<bar>rat_of_int i\<bar> < pow2 1024" by simp
qed

lemma round_binary64_dyadic:
  assumes "\<bar>i\<bar> < 2 ^ 53" "k \<le> 1074"
  shows "round_binary64 (of_int i / 2 ^ k) = Fin (of_int i / 2 ^ k)"
proof (rule round_binary64_exact[where m = i and e = "- int k"])
  have p: "pow2 (- int k) = 1 / 2 ^ k"
    by (cases "k = 0") (simp_all add: pow2_def)
  show "of_int i / 2 ^ k = of_int i * pow2 (- int k)" by (simp add: p)
  show "\<bar>i\<bar> < 2 ^ 53" by (rule assms)
  show "- 1074 \<le> - int k" using assms(2) by simp
  have "\<bar>rat_of_int i / 2 ^ k\<bar> = of_int \<bar>i\<bar> / 2 ^ k" by simp
  also have "\<dots> \<le> of_int \<bar>i\<bar>"
    by (simp add: divide_le_eq mult_le_cancel_left1)
  also have "\<dots> < of_int (2 ^ 53)"
    using assms(1) by (simp only: of_int_less_iff)
  also have "\<dots> = pow2 53" by (simp add: pow2_def)
  also have "\<dots> \<le> pow2 1024" by (simp only: pow2_le_iff)
  finally show "\<bar>rat_of_int i / 2 ^ k\<bar> < pow2 1024" .
qed

lemma fabs_round_binary64: "fabs (round_binary64 q) = round_binary64 \<bar>q\<bar>"
proof (cases "q = 0")
  case True
  then show ?thesis by (simp add: round_binary64_def)
next
  case False
  define u where "u = pow2 (max (floor_log2 \<bar>q\<bar> - 52) (- 1074))"
  define r where "r = of_int (round_half_even (\<bar>q\<bar> / u)) * u"
  have "0 < u" by (simp add: u_def pow2_pos)
  then have "0 \<le> \<bar>q\<bar> / u" by simp
  then have "0 \<le> round_half_even (\<bar>q\<bar> / u)" by (rule round_half_even_nonneg)
  with \<open>0 < u\<close> have r0: "0 \<le> r" by (simp add: r_def)
  have l: "round_binary64 q =
      (if pow2 1024 \<le> r then (if 0 < q then PInf else NInf) else Fin (if 0 < q then r else - r))"
    using False by (simp add: round_binary64_def Let_def u_def r_def)
  have rr: "round_binary64 \<bar>q\<bar> = (if pow2 1024 \<le> r then PInf else Fin r)"
    using False by (simp add: round_binary64_def Let_def u_def r_def)
  show ?thesis using r0 by (simp add: l rr)
qed

lemma round_half_even_error: "\<bar>of_int (round_half_even x) - x\<bar> \<le> 1 / 2"
proof -
  have "of_int \<lfloor>x\<rfloor> \<le> x" "x < of_int \<lfloor>x\<rfloor> + 1" by linarith+
  then show ?thesis
    by (auto simp add: round_half_even_def Let_def abs_le_iff)
qed

lemma round_half_even_le: 
  assumes "x \<le> of_int M" shows "round_half_even x \<le> M"
proof -
  have f: "\<lfloor>x\<rfloor> \<le> M" using assms by (simp add: floor_le_iff) 
  show ?thesis
  proof (cases "\<lfloor>x\<rfloor> = M")
    case True
    have "of_int \<lfloor>x\<rfloor> \<le> x" by linarith
    with True assms have "x = of_int \<lfloor>x\<rfloor>" by simp
    then have "round_half_even x = \<lfloor>x\<rfloor>" using round_half_even_of_int[of "\<lfloor>x\<rfloor>"] by simp
    with True show ?thesis by simp
  next
    case False
    with f have "\<lfloor>x\<rfloor> + 1 \<le> M" by simp
    moreover have "round_half_even x \<le> \<lfloor>x\<rfloor> + 1"
      by (simp add: round_half_even_def Let_def)
    ultimately show ?thesis by simp
  qed
qed

lemma round_binary64_near:
  assumes bound: "\<bar>q\<bar> < pow2 K" and K: "0 \<le> K" "K \<le> 1023"
  shows "\<exists>r. round_binary64 q = Fin r \<and> \<bar>r - q\<bar> \<le> pow2 (K - 53) / 2
           \<and> \<bar>r\<bar> \<le> pow2 K \<and> (0 \<le> q \<longrightarrow> 0 \<le> r)"
proof (cases "q = 0")
  case True
  then show ?thesis using pow2_pos[of K] pow2_pos[of "K - 53"]
    by (simp add: round_binary64_def)
next
  case False
  define a where "a = \<bar>q\<bar>"
  define ue where "ue = max (floor_log2 a - 52) (- 1074)"
  define N where "N = round_half_even (a / pow2 ue)"
  define r where "r = of_int N * pow2 ue"
  have a_pos: "0 < a" using False by (simp add: a_def)
  have u_pos: "0 < pow2 ue" by (rule pow2_pos)
  from floor_log2_lower[OF a_pos] bound have "pow2 (floor_log2 a) < pow2 K"
    by (simp add: a_def)
  then have L: "floor_log2 a < K" by (simp only: pow2_less_iff)
  with K have ue_le: "ue \<le> K - 53" by (simp add: ue_def)
  then have u_le: "pow2 ue \<le> pow2 (K - 53)" by (simp only: pow2_le_iff)
  have ueK: "ue \<le> K" using ue_le by simp
  have "\<bar>of_int N - a / pow2 ue\<bar> \<le> 1 / 2"
    unfolding N_def by (rule round_half_even_error)
  then have "\<bar>of_int N - a / pow2 ue\<bar> * pow2 ue \<le> 1 / 2 * pow2 ue"
    using u_pos by (simp only: mult_le_cancel_right_pos)
  moreover have "\<bar>of_int N - a / pow2 ue\<bar> * pow2 ue = \<bar>r - a\<bar>"
  proof -
    have "(of_int N - a / pow2 ue) * pow2 ue = r - a"
      using u_pos by (simp add: r_def field_simps)
    then have "\<bar>r - a\<bar> = \<bar>of_int N - a / pow2 ue\<bar> * \<bar>pow2 ue\<bar>"
      by (simp only: abs_mult[symmetric])
    with u_pos show ?thesis by simp
  qed
  ultimately have "\<bar>r - a\<bar> \<le> pow2 ue / 2" by simp
  with u_le have err: "\<bar>r - a\<bar> \<le> pow2 (K - 53) / 2" by simp
  have N0: "0 \<le> N"
    unfolding N_def using a_pos u_pos by (intro round_half_even_nonneg) simp
  then have r0: "0 \<le> r" using u_pos by (simp add: r_def)
  have splitK: "pow2 K = pow2 (K - ue) * pow2 ue"
    by (simp add: pow2_add[symmetric])
  have int_pow: "pow2 (K - ue) = of_int (2 ^ nat (K - ue))"
    using ueK pow2_nat[of "nat (K - ue)"] by simp
  have "a / pow2 ue \<le> pow2 (K - ue)"
    using bound u_pos by (simp add: a_def splitK pos_divide_le_eq)
  then have "N \<le> 2 ^ nat (K - ue)"
    unfolding N_def int_pow by (rule round_half_even_le)
  then have "(of_int N :: rat) \<le> of_int (2 ^ nat (K - ue))"
    by (simp only: of_int_le_iff)
  then have "of_int N * pow2 ue \<le> pow2 (K - ue) * pow2 ue"
    unfolding int_pow using u_pos by (simp only: mult_le_cancel_right_pos)
  then have rK: "r \<le> pow2 K" by (simp add: r_def splitK[symmetric])
  have "pow2 K < pow2 1024" using K by (simp only: pow2_less_iff)
  with rK have nb: "\<not> pow2 1024 \<le> r" by simp
  have rb: "round_binary64 q = Fin (if 0 < q then r else - r)"
    using False nb
    unfolding round_binary64_def Let_def a_def[symmetric] ue_def[symmetric] N_def[symmetric]
      r_def[symmetric]
    by simp
  show ?thesis
  proof (cases "0 < q")
    case True
    then have "a = q" by (simp add: a_def)
    with True rb err r0 rK show ?thesis by simp
  next
    case neg: False
    with False have "q < 0" by simp
    then have "a = - q" by (simp add: a_def)
    moreover have "\<bar>- r - q\<bar> = \<bar>r - (- q)\<bar>" by (simp add: abs_minus_commute)
    ultimately show ?thesis using \<open>q < 0\<close> rb err r0 rK by simp
  qed
qed

section \<open>Request encoding\<close>

lemma uint_byte_of_int: "0 \<le> k \<Longrightarrow> k \<le> 255 \<Longrightarrow> uint (word_of_int k :: byte) = k"
  by (simp add: uint_word_of_int_eq take_bit_int_eq_self)

lemma first_byte_eq: "push_bit 6 (0::int) OR push_bit 3 v OR 3 = 8 * v + 3"
proof -
  have "push_bit 3 v AND (3::int) = take_bit 2 (push_bit 3 v)"
    by (simp add: take_bit_eq_mask mask_eq_exp_minus_1)
  also have "\<dots> = 0"
    by (simp add: take_bit_push_bit)
  finally have "push_bit 3 v + 3 = push_bit 3 v OR (3::int)"
    by (rule disjunctive_add_eq_or)
  then show ?thesis by (simp add: push_bit_eq_mult)
qed

lemma build_packet_ok:
  assumes "0 \<le> version cfg" "version cfg \<le> 31"
  shows "build_packet cfg = Inr (word_of_int (8 * version cfg + 3) # replicate 47 0)"
  unfolding build_packet_def Let_def first_byte_eq
  using assms by (simp add: eval_nat_numeral)

lemma build_packet_raises:
  assumes "version cfg < 0 \<or> 32 \<le> version cfg"
  shows "build_packet cfg = Inl StructError"
  unfolding build_packet_def Let_def first_byte_eq
  using assms by (auto simp add: eval_nat_numeral)

lemma first_byte_fields:
  assumes "0 \<le> v" "v \<le> 31"
  shows "uint (word_of_int (8 * v + 3) :: byte) = 8 * v + 3"
    and "leap_indicator (word_of_int (8 * v + 3)) = drop_bit 3 v"
    and "version_number (word_of_int (8 * v + 3)) = take_bit 3 v"
    and "mode_field (word_of_int (8 * v + 3)) = 3"
  using assms uint_byte_of_int[of "8 * v + 3"]
  by (simp_all add: leap_indicator_def version_number_def mode_field_def drop_bit_int_def take_bit_eq_mod)

text \<open>
  C9: encoding is well behaved exactly for the versions 0 to 7: only then does byte 0 read
  back as leap indicator 0, the configured version and mode 3. For the versions 8 to 31
  a packet of 48 bytes is still returned, but the bits of the version above its low three
  land in the leap indicator field, which is then not 0 (the version is not masked).
  From version 32 on the value of byte 0 exceeds 255 and \<open>struct.pack\<close> raises.
\<close>

theorem build_packet_version_ranges:
  "((\<exists>p. build_packet cfg = Inr p \<and> leap_indicator (p ! 0) = 0
          \<and> version_number (p ! 0) = version cfg \<and> mode_field (p ! 0) = 3)
      \<longleftrightarrow> 0 \<le> version cfg \<and> version cfg \<le> 7)
   \<and> (8 \<le> version cfg \<and> version cfg \<le> 31 \<longrightarrow>
        (\<exists>p. build_packet cfg = Inr p \<and> length p = 48
           \<and> leap_indicator (p ! 0) = drop_bit 3 (version cfg) \<and> leap_indicator (p ! 0) \<noteq> 0
           \<and> version_number (p ! 0) = take_bit 3 (version cfg) \<and> mode_field (p ! 0) = 3))
   \<and> (32 \<le> version cfg \<longrightarrow> build_packet cfg = Inl StructError)"
proof -
  let ?v = "version cfg"
  have low: "\<exists>p. build_packet cfg = Inr p \<and> leap_indicator (p ! 0) = 0
          \<and> version_number (p ! 0) = ?v \<and> mode_field (p ! 0) = 3"
    if "0 \<le> ?v" "?v \<le> 7"
    using that build_packet_ok[of cfg] first_byte_fields[of ?v]
    by (simp add: drop_bit_int_def take_bit_eq_mod)
  have only: "0 \<le> ?v \<and> ?v \<le> 7"
    if p: "build_packet cfg = Inr p" "leap_indicator (p ! 0) = 0" for p
  proof -
    have r: "0 \<le> ?v \<and> ?v \<le> 31"
      using p(1) build_packet_raises[of cfg] by fastforce
    then have "leap_indicator (p ! 0) = drop_bit 3 ?v"
      using build_packet_ok[of cfg] first_byte_fields(2)[of ?v] p(1) by simp
    with p(2) r show ?thesis by (simp add: drop_bit_int_def)
  qed
  have mid: "\<exists>p. build_packet cfg = Inr p \<and> length p = 48
           \<and> leap_indicator (p ! 0) = drop_bit 3 ?v \<and> leap_indicator (p ! 0) \<noteq> 0
           \<and> version_number (p ! 0) = take_bit 3 ?v \<and> mode_field (p ! 0) = 3"
    if "8 \<le> ?v" "?v \<le> 31"
    using that build_packet_ok[of cfg] first_byte_fields[of ?v]
    by (simp add: drop_bit_int_def)
  have high: "build_packet cfg = Inl StructError" if "32 \<le> ?v"
    using that build_packet_raises[of cfg] by simp
  from low only mid high show ?thesis by blast
qed

theorem build_packet_version_ranges_witness:
  "(\<exists>p. build_packet (NTPConfig_default\<lparr>version := 4\<rparr>) = Inr p \<and> leap_indicator (p ! 0) = 0
        \<and> version_number (p ! 0) = 4 \<and> mode_field (p ! 0) = 3)
   \<and> (\<exists>p. build_packet (NTPConfig_default\<lparr>version := 12\<rparr>) = Inr p \<and> length p = 48
        \<and> leap_indicator (p ! 0) = 1 \<and> version_number (p ! 0) = 4 \<and> mode_field (p ! 0) = 3)
   \<and> build_packet (NTPConfig_default\<lparr>version := 40\<rparr>) = Inl StructError"
proof -
  have a: "\<exists>p. build_packet (NTPConfig_default\<lparr>version := 4\<rparr>) = Inr p \<and> leap_indicator (p ! 0) = 0
        \<and> version_number (p ! 0) = 4 \<and> mode_field (p ! 0) = 3"
    using build_packet_version_ranges[of "NTPConfig_default\<lparr>version := 4\<rparr>"] by simp
  have b: "\<exists>p. build_packet (NTPConfig_default\<lparr>version := 12\<rparr>) = Inr p \<and> length p = 48
        \<and> leap_indicator (p ! 0) = 1 \<and> version_number (p ! 0) = 4 \<and> mode_field (p ! 0) = 3"
    using build_packet_version_ranges[of "NTPConfig_default\<lparr>version := 12\<rparr>"]
    by (fastforce simp add: drop_bit_int_def take_bit_eq_mod)
  have c: "build_packet (NTPConfig_default\<lparr>version := 40\<rparr>) = Inl StructError"
    using build_packet_version_ranges[of "NTPConfig_default\<lparr>version := 40\<rparr>"] by simp
  from a b c show ?thesis by (intro conjI)
qed

text \<open>
  C6, amended: for every configuration whose version lies between 0 and 31, encoding
  produces exactly 48 bytes, byte 0 is \<open>(0<<6)|(version<<3)|3\<close> and the other 47
  bytes are zero; byte 0 reads back as leap indicator 0, the configured version and mode 3
  when the version is at most 7.
\<close>

theorem build_packet_layout:
  "(0 \<le> version cfg \<and> version cfg \<le> 31 \<longrightarrow>
      (\<exists>p. build_packet cfg = Inr p \<and> length p = 48
         \<and> uint (p ! 0) = (push_bit 6 0 OR push_bit 3 (version cfg) OR 3)
         \<and> drop 1 p = replicate 47 0))
   \<and> (0 \<le> version cfg \<and> version cfg \<le> 7 \<longrightarrow>
      (\<exists>p. build_packet cfg = Inr p \<and> leap_indicator (p ! 0) = 0
         \<and> version_number (p ! 0) = version cfg \<and> mode_field (p ! 0) = 3))"
proof -
  let ?v = "version cfg"
  have a: "\<exists>p. build_packet cfg = Inr p \<and> length p = 48
         \<and> uint (p ! 0) = (push_bit 6 0 OR push_bit 3 ?v OR 3)
         \<and> drop 1 p = replicate 47 0" if "0 \<le> ?v" "?v \<le> 31"
    using that build_packet_ok[of cfg] first_byte_fields(1)[of ?v] first_byte_eq[of ?v]
    by simp
  have b: "\<exists>p. build_packet cfg = Inr p \<and> leap_indicator (p ! 0) = 0
          \<and> version_number (p ! 0) = ?v \<and> mode_field (p ! 0) = 3"
    if "0 \<le> ?v" "?v \<le> 7"
    using that build_packet_ok[of cfg] first_byte_fields[of ?v]
    by (simp add: drop_bit_int_def take_bit_eq_mod)
  from a b show ?thesis by blast
qed

theorem build_packet_layout_witness:
  "(\<exists>p. build_packet NTPConfig_default = Inr p \<and> length p = 48
         \<and> uint (p ! 0) = 35 \<and> drop 1 p = replicate 47 0)
   \<and> (\<exists>p. build_packet NTPConfig_default = Inr p \<and> leap_indicator (p ! 0) = 0
         \<and> version_number (p ! 0) = 4 \<and> mode_field (p ! 0) = 3)"
  using build_packet_layout[of NTPConfig_default] first_byte_eq[of 4]
  by (simp add: NTPConfig_default_def)

text \<open>
  C6 as stated, for every configuration, fails: with version 32 byte 0 would be 259 and
  no packet is produced.
\<close>

theorem build_packet_every_config_counterexample:
  "build_packet (NTPConfig_default\<lparr>version := 32\<rparr>) = Inl StructError"
  by (simp add: build_packet_raises)

section \<open>Reply decoding\<close>

lemma slice_40_48:
  assumes "48 \<le> length data"
  shows "slice_list data 40 48 = [data ! 40, data ! 41, data ! 42, data ! 43,
                             data ! 44, data ! 45, data ! 46, data ! 47]"
proof -
  have "take 8 (drop 40 data) = map (\<lambda>i. data ! (40 + i)) [0..<8]"
    using assms by (intro nth_equalityI) simp_all
  also have "[0..<8] = [0, 1, 2, 3, 4, 5, 6, 7]"
    by (simp add: upt_rec)
  finally show ?thesis by (simp add: slice_list_def)
qed

lemma unpack_II:
  "struct_unpack [Fmt_I, Fmt_I] [b0, b1, b2, b3, b4, b5, b6, b7] =
     Inr [uint b0 * 2 ^ 24 + uint b1 * 2 ^ 16 + uint b2 * 2 ^ 8 + uint b3,
          uint b4 * 2 ^ 24 + uint b5 * 2 ^ 16 + uint b6 * 2 ^ 8 + uint b7]"
  by (simp add: be_int_def)

lemma uint_byte_bounds: "0 \<le> uint (b :: byte) \<and> uint b \<le> 255"
  using uint_bounded[of b] by simp

lemma be_u32_at_bounds: "0 \<le> be_u32_at data off \<and> be_u32_at data off < 2 ^ 32"
  using uint_byte_bounds[of "data ! off"] uint_byte_bounds[of "data ! (off + 1)"]
    uint_byte_bounds[of "data ! (off + 2)"] uint_byte_bounds[of "data ! (off + 3)"]
  by (simp add: be_u32_at_def)

lemma unpack_reply:
  assumes "48 \<le> length data"
  shows "struct_unpack [Fmt_I, Fmt_I] (slice_list data 40 48) = Inr [be_u32_at data 40, be_u32_at data 44]"
  unfolding slice_40_48[OF assms] unpack_II by (simp add: be_u32_at_def)

lemma float_of_int_exact: "\<bar>i\<bar> < 2 ^ 53 \<Longrightarrow> float_of_int i = Inr (Fin (of_int i))"
  by (simp add: float_of_int_def round_binary64_of_int)

lemma int_truediv_pow2_exact:
  assumes "\<bar>i\<bar> < 2 ^ 53"
  shows "int_truediv i (2 ^ 32) = Inr (Fin (of_int i / 2 ^ 32))"
proof -
  have "round_binary64 (of_int i / 2 ^ 32) = Fin (of_int i / 2 ^ 32)"
    using assms by (intro round_binary64_dyadic) simp_all
  then show ?thesis by (simp add: int_truediv_def)
qed

lemma decode_reply_long:
  assumes "48 \<le> length data"
  shows "decode_reply data =
           Inr (Some (fsub (fadd (Fin (of_int (be_u32_at data 40)))
                                 (Fin (of_int (be_u32_at data 44) / 2 ^ 32)))
                           (Fin 2208988800)))"
proof -
  have s: "float_of_int (be_u32_at data 40) = Inr (Fin (of_int (be_u32_at data 40)))"
    using be_u32_at_bounds[of data 40] by (intro float_of_int_exact) simp
  have f: "int_truediv (be_u32_at data 44) (2 ^ 32) = Inr (Fin (of_int (be_u32_at data 44) / 2 ^ 32))"
    using be_u32_at_bounds[of data 44] by (intro int_truediv_pow2_exact) simp
  have d: "float_of_int NTP_DELTA = Inr (Fin 2208988800)"
    using float_of_int_exact[of NTP_DELTA] by (simp add: NTP_DELTA_def)
  have len: "\<not> length data < 48" using assms by simp
  show ?thesis
    unfolding decode_reply_def unpack_reply[OF assms]
    using len f s d by simp
qed

lemma decode_reply_exact:
  assumes len: "48 \<le> length data" and low: "2 ^ 11 dvd be_u32_at data 44"
  shows "decode_reply data =
           Inr (Some (Fin (of_int (be_u32_at data 40) + of_int (be_u32_at data 44) / 2 ^ 32
                           - 2208988800)))"
proof -
  define sec where "sec = be_u32_at data 40"
  define frac where "frac = be_u32_at data 44"
  obtain f where f: "frac = 2 ^ 11 * f" using low unfolding frac_def by (elim dvdE)
  have sb: "0 \<le> sec" "sec < 2 ^ 32" using be_u32_at_bounds[of data 40] by (simp_all add: sec_def)
  have "0 \<le> frac" "frac < 2 ^ 32" using be_u32_at_bounds[of data 44] by (simp_all add: frac_def)
  then have fb: "0 \<le> f" "f < 2 ^ 21" by (simp_all add: f)
  have q1: "(of_int sec + of_int frac / 2 ^ 32 :: rat) = of_int (sec * 2 ^ 21 + f) / 2 ^ 21"
    by (simp add: f field_simps)
  have "round_binary64 (of_int (sec * 2 ^ 21 + f) / 2 ^ 21) = Fin (of_int (sec * 2 ^ 21 + f) / 2 ^ 21)"
    using sb fb by (intro round_binary64_dyadic) simp_all
  then have a: "fadd (Fin (of_int sec)) (Fin (of_int frac / 2 ^ 32)) = Fin (of_int sec + of_int frac / 2 ^ 32)"
    by (simp only: fadd.simps q1)
  have q2: "(of_int sec + of_int frac / 2 ^ 32 - 2208988800 :: rat)
              = of_int (sec * 2 ^ 21 + f - 2208988800 * 2 ^ 21) / 2 ^ 21"
    by (simp add: f field_simps)
  have "round_binary64 (of_int (sec * 2 ^ 21 + f - 2208988800 * 2 ^ 21) / 2 ^ 21)
          = Fin (of_int (sec * 2 ^ 21 + f - 2208988800 * 2 ^ 21) / 2 ^ 21)"
    using sb fb by (intro round_binary64_dyadic) simp_all
  then have b: "fsub (Fin (of_int sec + of_int frac / 2 ^ 32)) (Fin 2208988800)
                  = Fin (of_int sec + of_int frac / 2 ^ 32 - 2208988800)"
    by (simp only: fsub.simps q2)
  show ?thesis
    unfolding decode_reply_long[OF len] sec_def[symmetric] frac_def[symmetric] a b ..
qed

text \<open>
  C4: for a buffer of at least 48 bytes, decoding returns the float that Python computes as
  \<open>seconds + fraction / 2**32 - 2208988800\<close>, where \<open>seconds\<close> and \<open>fraction\<close> are the
  big-endian 32-bit unsigned integers at byte offsets 40 and 44: the quotient is exact, the
  sum and the difference are each rounded to the nearest binary64 value. The result is
  finite and lies within \<open>1 / 2 ^ 21\<close> of the exact rational value.
\<close>

theorem decode_reply_timestamp:
  assumes "48 \<le> length data"
  shows "decode_reply data =
           Inr (Some (fsub (fadd (Fin (of_int (be_u32_at data 40)))
                                 (Fin (of_int (be_u32_at data 44) / 2 ^ 32)))
                           (Fin 2208988800)))
         \<and> (\<exists>v. decode_reply data = Inr (Some (Fin v))
               \<and> \<bar>v - (of_int (be_u32_at data 40) + of_int (be_u32_at data 44) / 2 ^ 32
                        - 2208988800)\<bar> \<le> 1 / 2 ^ 21)"
proof -
  define sec :: rat where "sec = of_int (be_u32_at data 40)"
  define frac :: rat where "frac = of_int (be_u32_at data 44)"
  have sb: "0 \<le> sec" "sec \<le> 2 ^ 32 - 1"
  proof -
    have "0 \<le> be_u32_at data 40" "be_u32_at data 40 \<le> 2 ^ 32 - 1"
      using be_u32_at_bounds[of data 40] by simp_all
    then have "(of_int 0 :: rat) \<le> sec" "sec \<le> of_int (2 ^ 32 - 1)"
      unfolding sec_def by (simp_all only: of_int_le_iff)
    then show "0 \<le> sec" "sec \<le> 2 ^ 32 - 1" by simp_all
  qed
  have fb: "0 \<le> frac" "frac < 2 ^ 32"
  proof -
    have "0 \<le> be_u32_at data 44" "be_u32_at data 44 < 2 ^ 32"
      using be_u32_at_bounds[of data 44] by simp_all
    then have "(of_int 0 :: rat) \<le> frac" "frac < of_int (2 ^ 32)"
      unfolding frac_def by (simp_all only: of_int_le_iff of_int_less_iff)
    then show "0 \<le> frac" "frac < 2 ^ 32" by simp_all
  qed
  have h: "(1 / 2 ^ 22 :: rat) = pow2 (32 - 53) / 2" by (simp add: pow2_def)
  have p32: "pow2 32 = 2 ^ 32" by (simp add: pow2_def)
  have q1: "0 \<le> sec + frac / 2 ^ 32" "sec + frac / 2 ^ 32 < 2 ^ 32"
    using sb fb by (simp_all add: field_simps)
  then have "\<bar>sec + frac / 2 ^ 32\<bar> < pow2 32" by (simp add: p32)
  from round_binary64_near[OF this] q1(1)
  obtain r where r: "round_binary64 (sec + frac / 2 ^ 32) = Fin r"
      "\<bar>r - (sec + frac / 2 ^ 32)\<bar> \<le> 1 / 2 ^ 22" "\<bar>r\<bar> \<le> 2 ^ 32" "0 \<le> r"
    unfolding h[symmetric] p32 by auto
  have "\<bar>r - 2208988800\<bar> < pow2 32" using r(3,4) by (simp add: p32 abs_less_iff)
  from round_binary64_near[OF this]
  obtain v where v: "round_binary64 (r - 2208988800) = Fin v"
      "\<bar>v - (r - 2208988800)\<bar> \<le> 1 / 2 ^ 22"
    unfolding h[symmetric] p32 by auto
  have val: "fsub (fadd (Fin sec) (Fin (frac / 2 ^ 32))) (Fin 2208988800) = Fin v"
    using r(1) v(1) by simp
  have "\<bar>v - (sec + frac / 2 ^ 32 - 2208988800)\<bar>
          \<le> \<bar>v - (r - 2208988800)\<bar> + \<bar>r - (sec + frac / 2 ^ 32)\<bar>"
    by linarith
  also have "\<dots> \<le> 1 / 2 ^ 22 + 1 / 2 ^ 22"
    using v(2) r(2) by (rule add_mono)
  also have "\<dots> = (1 / 2 ^ 21 :: rat)" by simp
  finally have err: "\<bar>v - (sec + frac / 2 ^ 32 - 2208988800)\<bar> \<le> 1 / 2 ^ 21" .
  show ?thesis
    using decode_reply_long[OF assms] val err
    unfolding sec_def[symmetric] frac_def[symmetric] by simp
qed

lemma example_reply_fields:
  "length example_reply = 48" "be_u32_at example_reply 40 = 2208988805"
  "be_u32_at example_reply 44 = 2 ^ 31"
  by (simp_all add: example_reply_def be_u32_at_def nth_append)

lemma decode_example_reply: "decode_reply example_reply = Inr (Some (Fin (11 / 2)))"
  using decode_reply_exact[of example_reply]
  by (simp add: example_reply_fields)

theorem decode_reply_timestamp_witness:
  "48 \<le> length example_reply
   \<and> decode_reply example_reply
       = Inr (Some (fsub (fadd (Fin 2208988805) (Fin (1 / 2))) (Fin 2208988800)))
   \<and> (\<exists>v. decode_reply example_reply = Inr (Some (Fin v)) \<and> \<bar>v - 11 / 2\<bar> \<le> 1 / 2 ^ 21)"
proof -
  have len: "48 \<le> length example_reply" by (simp add: example_reply_fields)
  have a: "decode_reply example_reply
             = Inr (Some (fsub (fadd (Fin 2208988805) (Fin (1 / 2))) (Fin 2208988800)))"
    using decode_reply_timestamp[OF len, THEN conjunct1] by (simp add: example_reply_fields)
  have b: "\<exists>v. decode_reply example_reply = Inr (Some (Fin v)) \<and> \<bar>v - 11 / 2\<bar> \<le> 1 / 2 ^ 21"
    using decode_reply_timestamp[OF len, THEN conjunct2] by (simp add: example_reply_fields)
  from len a b show ?thesis by (intro conjI)
qed

lemma decode_reply_short: "length data < 48 \<Longrightarrow> decode_reply data = Inr None"
  by (simp add: decode_reply_def)

lemma get_ntp_time_world: "snd (get_ntp_time cfg net server w) = w\<lparr>tried := tried w @ [server]\<rparr>"
  by (simp add: get_ntp_time_def Let_def split: outcome.splits sum.splits)

text \<open>
  C5: a received buffer shorter than 48 bytes is never decoded: the decoding step yields
  no timestamp, and \<open>get_ntp_time\<close>, handed such a datagram, returns \<open>None\<close>
  (the failure the specification calls MalformedReply).
\<close>

theorem short_reply_rejected:
  assumes "length data < 48"
  shows "decode_reply data = Inr None
       \<and> (open_socket net (length (tried w)) (timeout cfg) = Ok ()
            \<and> build_packet cfg = Inr packet
            \<and> exchange net (length (tried w)) server port packet = Ok data
          \<longrightarrow> get_ntp_time cfg net server w = (Inr None, w\<lparr>tried := tried w @ [server]\<rparr>))"
  using assms by (simp add: decode_reply_short get_ntp_time_def)

lemma build_packet_default:
  "build_packet NTPConfig_default = Inr (35 # replicate 47 0)"
  using build_packet_ok[of NTPConfig_default] by (simp add: NTPConfig_default_def)

theorem short_reply_rejected_witness:
  "length example_short_reply < 48
   \<and> decode_reply example_short_reply = Inr None
   \<and> get_ntp_time NTPConfig_default example_short_network ''pool.ntp.org'' example_world
       = (Inr None, example_world\<lparr>tried := [''pool.ntp.org'']\<rparr>)"
  using short_reply_rejected[of example_short_reply example_short_network example_world
      NTPConfig_default "35 # replicate 47 0" "''pool.ntp.org''"]
  by (simp add: example_short_reply_def example_short_network_def example_world_def
      build_packet_default)

section \<open>query\<close>

lemma get_ntp_time_pair:
  "get_ntp_time cfg net server w = (fst (get_ntp_time cfg net server w), w\<lparr>tried := tried w @ [server]\<rparr>)"
  using get_ntp_time_world[of cfg net server w] by (simp add: prod_eq_iff)

lemma attempt_0: "attempt cfg net (srv # rest) w 0 = fst (get_ntp_time cfg net srv w)"
  by (simp add: attempt_def)


lemma query_loop_step:
  "query_loop cfg net (srv # rest) w =
     (case attempt cfg net (srv # rest) w 0 of
        Inl e \<Rightarrow> (Inl e, w\<lparr>tried := tried w @ [srv]\<rparr>)
      | Inr (Some ts) \<Rightarrow> (Inr (Some ts), w\<lparr>tried := tried w @ [srv]\<rparr>)
      | Inr None \<Rightarrow> query_loop cfg net rest (w\<lparr>tried := tried w @ [srv]\<rparr>))"
  unfolding attempt_0
  by (subst query_loop.simps, subst get_ntp_time_pair) (simp split: sum.splits option.splits)




text \<open>
  C10: with an empty configured server list and no override, \<open>query\<close> returns \<open>None\<close>
  at once: the state is unchanged, so no server was tried.
\<close>

theorem query_no_servers:
  assumes "servers cfg = []"
  shows "query cfg net None w = (Inr None, w)"
  using assms by (simp add: query_def candidates_def)

section \<open>sync\<close>

lemma query_loop_preserves:
  "query_loop cfg net cs w = (r, w1) \<Longrightarrow> os w1 = os w \<and> setter_calls w1 = setter_calls w"
proof (induction cs arbitrary: w)
  case Nil
  then show ?case by simp
next
  case (Cons srv rest)
  let ?w = "w\<lparr>tried := tried w @ [srv]\<rparr>"
  show ?case
  proof (cases "attempt cfg net (srv # rest) w 0 = Inr None")
    case True
    with Cons.prems have "query_loop cfg net rest ?w = (r, w1)" by (simp add: query_loop_step del: query_loop.simps)
    from Cons.IH[OF this] show ?thesis by simp
  next
    case False
    with Cons.prems have "w1 = ?w"
      by (auto simp add: query_loop_step simp del: query_loop.simps split: sum.splits option.splits)
    then show ?thesis by simp
  qed
qed

lemma query_preserves:
  "query cfg net server w = (r, w1) \<Longrightarrow> os w1 = os w \<and> setter_calls w1 = setter_calls w"
  unfolding query_def by (rule query_loop_preserves)

lemma fgt_not_fle: "fgt a b \<Longrightarrow> \<not> fle a b"
  by (cases a; cases b) simp_all

lemma clock_offset_Fin: "clock_offset (Fin s) (Fin l) = round_binary64 \<bar>s - l\<bar>"
  by (simp add: clock_offset_def fabs_round_binary64)

lemma clock_offset_commute: "clock_offset a b = clock_offset b a"
proof (cases a; cases b)
  fix s l assume "a = Fin s" "b = Fin l"
  then show ?thesis by (simp add: clock_offset_Fin abs_minus_commute)
qed (simp_all add: clock_offset_def)

text \<open>
  C8: for finite timestamps the offset \<open>abs(ntp_ts - local_ts)\<close> is the absolute
  difference, as a float (the binary64 value nearest to it); it does not depend on the
  order of the two arguments, equal arguments give \<open>0.0\<close>, and 1005.0 against 1000.0
  gives 5.0.
\<close>

theorem clock_offset_is_absolute_difference:
  "clock_offset (Fin s) (Fin l) = round_binary64 \<bar>s - l\<bar>
   \<and> clock_offset a b = clock_offset b a
   \<and> clock_offset (Fin s) (Fin s) = Fin 0
   \<and> clock_offset (Fin (2001 / 2)) (Fin (2001 / 2)) = Fin 0
   \<and> clock_offset (Fin 1005) (Fin 1000) = Fin 5
   \<and> clock_offset (Fin 1000) (Fin 1005) = Fin 5"
proof -
  have "round_binary64 (of_int 5) = Fin (of_int 5)"
    by (rule round_binary64_of_int) simp
  then have five: "round_binary64 5 = Fin 5" by simp
  have zero: "round_binary64 0 = Fin 0" by (simp add: round_binary64_def)
  show ?thesis
    using clock_offset_commute[of a b] by (simp add: clock_offset_Fin five zero)
qed

section \<open>The two strategies of the Unix clock writer\<close>

text \<open>
  C7: \<open>LinuxTimeSetter.set_system_time\<close> runs the libc strategy first. If it succeeds the
  result is \<open>True\<close> and the \<open>date\<close> command is not run; if it fails the \<open>date\<close>
  command runs next, on the host as libc left it, and its outcome is the result. So the
  result is \<open>True\<close> exactly when one of the two succeeds and \<open>False\<close> exactly when
  both fail.
\<close>

theorem linux_setter_tries_libc_then_date:
  "(fst (set_time_via_libc api unix_ts (host s)) \<longrightarrow>
      LinuxTimeSetter_set_system_time api unix_ts s
        = (Inr True, s\<lparr>host := snd (set_time_via_libc api unix_ts (host s)),
                        attempted := attempted s @ [Libc]\<rparr>))
   \<and> (\<not> fst (set_time_via_libc api unix_ts (host s)) \<longrightarrow>
      LinuxTimeSetter_set_system_time api unix_ts s
        = (fst (set_time_via_date_cmd api unix_ts (snd (set_time_via_libc api unix_ts (host s)))),
           s\<lparr>host := snd (set_time_via_date_cmd api unix_ts
                            (snd (set_time_via_libc api unix_ts (host s)))),
             attempted := attempted s @ [Libc, DateCmd]\<rparr>))
   \<and> (fst (LinuxTimeSetter_set_system_time api unix_ts s) = Inr True \<longleftrightarrow>
        fst (set_time_via_libc api unix_ts (host s))
        \<or> fst (set_time_via_date_cmd api unix_ts (snd (set_time_via_libc api unix_ts (host s))))
            = Inr True)
   \<and> (fst (LinuxTimeSetter_set_system_time api unix_ts s) = Inr False \<longleftrightarrow>
        \<not> fst (set_time_via_libc api unix_ts (host s))
        \<and> fst (set_time_via_date_cmd api unix_ts (snd (set_time_via_libc api unix_ts (host s))))
            = Inr False)"
  by (simp add: LinuxTimeSetter_set_system_time_def Let_def split_beta)

section \<open>The examples, evaluated\<close>

lemma get_ntp_time_example:
  "fst (get_ntp_time NTPConfig_default example_network srv w)
     = (if srv = ''time.google.com'' then Inr (Some (Fin (11 / 2))) else Inr None)"
  by (simp add: get_ntp_time_def example_network_def build_packet_default decode_example_reply)


lemma servers_default: "servers NTPConfig_default = DEFAULT_SERVERS"
  by (simp add: NTPConfig_default_def)

lemma query_example:
  "query NTPConfig_default example_network None example_world
     = (Inr (Some (Fin (11 / 2))),
        example_world\<lparr>tried := [''pool.ntp.org'', ''time.google.com'']\<rparr>)"
  by (simp add: query_def candidates_def servers_default DEFAULT_SERVERS_def query_loop_step
      attempt_def get_ntp_time_example example_world_def del: query_loop.simps)

lemma offset_example_far: "clock_offset (Fin (11 / 2)) (Fin 100) = Fin (189 / 2)"
  using round_binary64_dyadic[of 189 1] by (simp add: clock_offset_Fin)

lemma offset_example_near: "clock_offset (Fin (11 / 2)) (Fin 6) = Fin (1 / 2)"
  using round_binary64_dyadic[of 1 1] by (simp add: clock_offset_Fin)


theorem query_no_servers_witness:
  "servers (NTPConfig_default\<lparr>servers := []\<rparr>) = []
   \<and> query (NTPConfig_default\<lparr>servers := []\<rparr>) example_network None example_world
       = (Inr None, example_world)"
  using query_no_servers[of "NTPConfig_default\<lparr>servers := []\<rparr>" example_network example_world]
  by simp

theorem linux_setter_tries_libc_then_date_witness:
  "LinuxTimeSetter_set_system_time example_api_root (Fin (11 / 2)) example_unix_host
     = (Inr True, \<lparr>host = Fin (11 / 2), attempted = [Libc]\<rparr>)
   \<and> LinuxTimeSetter_set_system_time example_api_sudo (Fin (11 / 2)) example_unix_host
     = (Inr True, \<lparr>host = Fin (11 / 2), attempted = [Libc, DateCmd]\<rparr>)
   \<and> LinuxTimeSetter_set_system_time example_api_denied (Fin (11 / 2)) example_unix_host
     = (Inr False, \<lparr>host = Fin 100, attempted = [Libc, DateCmd]\<rparr>)"
  using linux_setter_tries_libc_then_date[of example_api_root "Fin (11 / 2)" example_unix_host]
    linux_setter_tries_libc_then_date[of example_api_sudo "Fin (11 / 2)" example_unix_host]
    linux_setter_tries_libc_then_date[of example_api_denied "Fin (11 / 2)" example_unix_host]
  by (simp add: example_api_root_def example_api_sudo_def example_api_denied_def
      example_unix_host_def)

section \<open>sync in write mode\<close>

lemma decode_zero_reply: "decode_reply example_zero_reply = Inr (Some (Fin (- 2208988800)))"
proof -
  have "length example_zero_reply = 48" "be_u32_at example_zero_reply 40 = 0"
    "be_u32_at example_zero_reply 44 = 0"
    by (simp_all add: example_zero_reply_def be_u32_at_def)
  then show ?thesis using decode_reply_exact[of example_zero_reply] by simp
qed

lemma query_example_zero:
  assumes "version cfg = 4" "servers cfg = DEFAULT_SERVERS"
  shows "query cfg example_zero_network None example_world
           = (Inr (Some (Fin (- 2208988800))), example_world\<lparr>tried := [''pool.ntp.org'']\<rparr>)"
proof -
  have "build_packet cfg = Inr (35 # replicate 47 0)"
    using build_packet_ok[of cfg] assms(1) by simp
  then have "fst (get_ntp_time cfg example_zero_network srv w) = Inr (Some (Fin (- 2208988800)))"
    for srv and w :: "pyfloat world"
    by (simp add: get_ntp_time_def example_zero_network_def decode_zero_reply)
  then show ?thesis
    by (simp add: query_def candidates_def assms(2) DEFAULT_SERVERS_def query_loop_step
        attempt_def example_world_def del: query_loop.simps)
qed

lemma offset_example_1900:
  "clock_offset (Fin (- 2208988800)) (Fin 1700000000) = Fin 3908988800"
  using round_binary64_of_int[of 3908988800] by (simp add: clock_offset_Fin)

lemma local_time_strings_example:
  "local_time_strings example_datetime a b
     = Inr (''2026-01-01 00:00:00 UTC'', ''2026-01-01 00:00:00 UTC'')"
  by (simp add: local_time_strings_def example_datetime_def)

lemma local_time_strings_strict_1900:
  "local_time_strings example_datetime_strict (Fin (- 2208988800)) b = Inl OSError"
  by (simp add: local_time_strings_def example_datetime_strict_def)

text \<open>
  C1, amended: in write mode, when the query gave a timestamp and the offset is greater than
  the threshold, and the rendering of the two timestamps as local times (lines 297 to 302)
  does not raise: without a \<open>TimeSetter\<close>, \<open>sync\<close> returns \<open>False\<close> (PlatformUnsupported)
  and neither the host nor the list of writer calls changes; with one, \<open>sync\<close> calls
  \<open>set_system_time\<close> once, with the queried timestamp, and returns what the writer
  returned. If the rendering raises, \<open>sync\<close> raises that exception and no writer is called.
\<close>

theorem sync_writes_when_offset_exceeds_threshold:
  assumes "query cfg net server w = (Inr (Some ntp_ts), w1)"
    and "fgt (clock_offset ntp_ts local_ts) (sync_threshold cfg)"
  shows "(local_time_strings dt ntp_ts local_ts = Inr strs \<longrightarrow>
            sync cfg net dt local_ts server True None w = (Inr False, w1)
            \<and> sync cfg net dt local_ts server True (Some setter) w
                = (fst (setter ntp_ts (os w)),
                   w1\<lparr>os := snd (setter ntp_ts (os w)),
                      setter_calls := setter_calls w @ [ntp_ts]\<rparr>))
       \<and> (local_time_strings dt ntp_ts local_ts = Inl e \<longrightarrow>
            sync cfg net dt local_ts server True time_setter w = (Inl e, w1))
       \<and> setter_calls w1 = setter_calls w \<and> os w1 = os w"
  using assms fgt_not_fle[OF assms(2)] query_preserves[OF assms(1)]
  by (simp add: sync_def Let_def split_beta)

theorem sync_writes_when_offset_exceeds_threshold_witness:
  "query NTPConfig_default example_network None example_world
     = (Inr (Some (Fin (11 / 2))),
        example_world\<lparr>tried := [''pool.ntp.org'', ''time.google.com'']\<rparr>)
   \<and> fgt (clock_offset (Fin (11 / 2)) (Fin 100)) (sync_threshold NTPConfig_default)
   \<and> local_time_strings example_datetime (Fin (11 / 2)) (Fin 100)
       = Inr (''2026-01-01 00:00:00 UTC'', ''2026-01-01 00:00:00 UTC'')
   \<and> sync NTPConfig_default example_network example_datetime (Fin 100) None True None
        example_world
       = (Inr False, example_world\<lparr>tried := [''pool.ntp.org'', ''time.google.com'']\<rparr>)
   \<and> sync NTPConfig_default example_network example_datetime (Fin 100) None True
        (Some example_setter) example_world
       = (Inr True, \<lparr>os = Fin (11 / 2), tried = [''pool.ntp.org'', ''time.google.com''],
                     setter_calls = [Fin (11 / 2)]\<rparr>)"
proof -
  have g: "fgt (clock_offset (Fin (11 / 2)) (Fin 100)) (sync_threshold NTPConfig_default)"
    by (simp add: offset_example_far NTPConfig_default_def SYNC_THRESHOLD_def)
  from sync_writes_when_offset_exceeds_threshold[OF query_example g,
      of example_datetime "(''2026-01-01 00:00:00 UTC'', ''2026-01-01 00:00:00 UTC'')"
        example_setter]
  show ?thesis
    using query_example g
    by (simp add: local_time_strings_example example_setter_def example_world_def)
qed

text \<open>
  C1 as stated fails: the default servers answer with a transmit timestamp of 0 (the year
  1900, Unix time -2208988800), the local clock reads 1700000000, so the offset exceeds the
  threshold 1.0, and a writer is available; on a platform whose \<open>fromtimestamp\<close> rejects
  timestamps before 1970, \<open>sync\<close> raises \<open>OSError\<close>: it returns no boolean and calls no
  writer.
\<close>

theorem sync_write_mode_counterexample:
  "fgt (clock_offset (Fin (- 2208988800)) (Fin 1700000000)) (sync_threshold NTPConfig_default)
   \<and> query NTPConfig_default example_zero_network None example_world
       = (Inr (Some (Fin (- 2208988800))), example_world\<lparr>tried := [''pool.ntp.org'']\<rparr>)
   \<and> sync NTPConfig_default example_zero_network example_datetime_strict (Fin 1700000000)
        None True (Some example_setter) example_world
       = (Inl OSError, \<lparr>os = Fin 100, tried = [''pool.ntp.org''], setter_calls = []\<rparr>)"
proof -
  have q: "query NTPConfig_default example_zero_network None example_world
       = (Inr (Some (Fin (- 2208988800))), example_world\<lparr>tried := [''pool.ntp.org'']\<rparr>)"
    by (rule query_example_zero) (simp_all add: NTPConfig_default_def)
  have g: "fgt (clock_offset (Fin (- 2208988800)) (Fin 1700000000))
             (sync_threshold NTPConfig_default)"
    by (simp add: offset_example_1900 NTPConfig_default_def SYNC_THRESHOLD_def)
  have "sync NTPConfig_default example_zero_network example_datetime_strict (Fin 1700000000)
        None True (Some example_setter) example_world
       = (Inl OSError, \<lparr>os = Fin 100, tried = [''pool.ntp.org''], setter_calls = []\<rparr>)"
    unfolding sync_def q
    by (simp add: local_time_strings_strict_1900 example_world_def)
  with g q show ?thesis by (intro conjI)
qed

text \<open>
  C2, amended: in write mode, when the query gave a timestamp and the offset is at most the
  threshold, and the rendering of the two timestamps as local times (lines 297 to 302) does
  not raise, \<open>sync\<close> returns \<open>True\<close> and the writer, if there is one, is not called. If the
  rendering raises, \<open>sync\<close> raises that exception, and again no writer is called.
\<close>

theorem sync_skips_write_within_threshold:
  assumes "query cfg net server w = (Inr (Some ntp_ts), w1)"
    and "fle (clock_offset ntp_ts local_ts) (sync_threshold cfg)"
  shows "(local_time_strings dt ntp_ts local_ts = Inr strs \<longrightarrow>
            sync cfg net dt local_ts server True time_setter w = (Inr True, w1))
       \<and> (local_time_strings dt ntp_ts local_ts = Inl e \<longrightarrow>
            sync cfg net dt local_ts server True time_setter w = (Inl e, w1))
       \<and> setter_calls w1 = setter_calls w \<and> os w1 = os w"
  using assms query_preserves[OF assms(1)]
  by (simp add: sync_def Let_def)

theorem sync_skips_write_within_threshold_witness:
  "query NTPConfig_default example_network None example_world
     = (Inr (Some (Fin (11 / 2))),
        example_world\<lparr>tried := [''pool.ntp.org'', ''time.google.com'']\<rparr>)
   \<and> fle (clock_offset (Fin (11 / 2)) (Fin 6)) (sync_threshold NTPConfig_default)
   \<and> local_time_strings example_datetime (Fin (11 / 2)) (Fin 6)
       = Inr (''2026-01-01 00:00:00 UTC'', ''2026-01-01 00:00:00 UTC'')
   \<and> sync NTPConfig_default example_network example_datetime (Fin 6) None True
        (Some example_setter) example_world
       = (Inr True, \<lparr>os = Fin 100, tried = [''pool.ntp.org'', ''time.google.com''],
                     setter_calls = []\<rparr>)"
proof -
  have g: "fle (clock_offset (Fin (11 / 2)) (Fin 6)) (sync_threshold NTPConfig_default)"
    by (simp add: offset_example_near NTPConfig_default_def SYNC_THRESHOLD_def)
  from sync_skips_write_within_threshold[OF query_example g,
      of example_datetime "(''2026-01-01 00:00:00 UTC'', ''2026-01-01 00:00:00 UTC'')"
        "Some example_setter"]
  show ?thesis
    using query_example g by (simp add: local_time_strings_example example_world_def)
qed

text \<open>
  C2 as stated fails: with the threshold set to 10000000000 seconds, the same reply from
  the year 1900 and the same local clock give an offset within the threshold; on the
  platform that rejects timestamps before 1970, \<open>sync\<close> raises \<open>OSError\<close> where the claim
  has it return \<open>True\<close>.
\<close>

theorem sync_within_threshold_counterexample:
  "fle (clock_offset (Fin (- 2208988800)) (Fin 1700000000))
       (sync_threshold (NTPConfig_default\<lparr>sync_threshold := Fin 10000000000\<rparr>))
   \<and> query (NTPConfig_default\<lparr>sync_threshold := Fin 10000000000\<rparr>) example_zero_network None
        example_world
       = (Inr (Some (Fin (- 2208988800))), example_world\<lparr>tried := [''pool.ntp.org'']\<rparr>)
   \<and> sync (NTPConfig_default\<lparr>sync_threshold := Fin 10000000000\<rparr>) example_zero_network
        example_datetime_strict (Fin 1700000000) None True (Some example_setter) example_world
       = (Inl OSError, \<lparr>os = Fin 100, tried = [''pool.ntp.org''], setter_calls = []\<rparr>)"
proof -
  let ?cfg = "NTPConfig_default\<lparr>sync_threshold := Fin 10000000000\<rparr>"
  have q: "query ?cfg example_zero_network None example_world
       = (Inr (Some (Fin (- 2208988800))), example_world\<lparr>tried := [''pool.ntp.org'']\<rparr>)"
    by (rule query_example_zero) (simp_all add: NTPConfig_default_def)
  have g: "fle (clock_offset (Fin (- 2208988800)) (Fin 1700000000)) (sync_threshold ?cfg)"
    by (simp add: offset_example_1900)
  have "sync ?cfg example_zero_network example_datetime_strict (Fin 1700000000)
        None True (Some example_setter) example_world
       = (Inl OSError, \<lparr>os = Fin 100, tried = [''pool.ntp.org''], setter_calls = []\<rparr>)"
    unfolding sync_def q
    by (simp add: local_time_strings_strict_1900 example_world_def)
  with g q show ?thesis by (intro conjI)
qed

end
